theory Spec2Isabelle
  imports Main
begin

section \<open>JavaScript values\<close>

text \<open>
  The options of a call are untyped at run time (\<^verbatim>\<open>options: any\<close>, and the client is
  exported \<^verbatim>\<open>as any\<close>), and the code inspects them dynamically (\<^verbatim>\<open>typeof\<close>,
  truthiness, property lookup). They are therefore modelled as JavaScript values.
  Of the numbers only the integer-valued ones are represented (the code does nothing
  with a number but test it for truthiness), strings are lists of code units below 256,
  a function is named by a number (its identity), and \<open>JSignal c\<close> is the \<^verbatim>\<open>signal\<close>
  of the AbortController allocated at address \<open>c\<close>. An object is the list of its own
  enumerable properties in enumeration order; values are finite trees, so an object
  that contains itself is not one of them.
\<close>

datatype jsval =
    JUndefined
  | JNull
  | JBool bool
  | JNum int
  | JStr string
  | JArr "jsval list"
  | JObj "(string \<times> jsval) list"
  | JFun nat
  | JSignal nat

type_synonym obj = "(string \<times> jsval) list"

fun truthy :: "jsval \<Rightarrow> bool" where
  "truthy JUndefined = False"
| "truthy JNull = False"
| "truthy (JBool b) = b"
| "truthy (JNum n) = (n \<noteq> 0)"
| "truthy (JStr s) = (s \<noteq> [])"
| "truthy (JArr xs) = True"
| "truthy (JObj kvs) = True"
| "truthy (JFun f) = True"
| "truthy (JSignal c) = True"

fun typeof :: "jsval \<Rightarrow> string" where
  "typeof JUndefined = ''undefined''"
| "typeof JNull = ''object''"
| "typeof (JBool b) = ''boolean''"
| "typeof (JNum n) = ''number''"
| "typeof (JStr s) = ''string''"
| "typeof (JArr xs) = ''object''"
| "typeof (JObj kvs) = ''object''"
| "typeof (JFun f) = ''function''"
| "typeof (JSignal c) = ''object''"

text \<open>\<^verbatim>\<open>a || b\<close>\<close>

definition js_or :: "jsval \<Rightarrow> jsval \<Rightarrow> jsval" where
  "js_or a b = (if truthy a then a else b)"

text \<open>\<^verbatim>\<open>o[k]\<close> on an object: a missing property reads as \<^verbatim>\<open>undefined\<close>.\<close>

definition get_prop :: "obj \<Rightarrow> string \<Rightarrow> jsval" where
  "get_prop ob k = (case map_of ob k of None \<Rightarrow> JUndefined | Some v \<Rightarrow> v)"

text \<open>
  \<^verbatim>\<open>o[k] = v\<close>: an existing property keeps its place in the enumeration order, a new
  one is added last (keys that are array indices, which JavaScript enumerates first, are
  not treated specially).
\<close>

fun assign :: "obj \<Rightarrow> string \<Rightarrow> jsval \<Rightarrow> obj" where
  "assign [] k v = [(k, v)]"
| "assign ((k', v') # ob) k v = (if k' = k then (k, v) # ob else (k', v') # assign ob k v)"

definition digit :: "nat \<Rightarrow> char" where
  "digit d = ''0123456789abcdef'' ! d"

fun show_nat :: "nat \<Rightarrow> string" where
  "show_nat n = (if n < 10 then [digit n] else show_nat (n div 10) @ [digit (n mod 10)])"

declare show_nat.simps [simp del]

fun indexed :: "nat \<Rightarrow> jsval list \<Rightarrow> obj" where
  "indexed i [] = []"
| "indexed i (x # xs) = (show_nat i, x) # indexed (Suc i) xs"

text \<open>The own enumerable properties that a spread \<^verbatim>\<open>...v\<close> copies.\<close>

fun own_props :: "jsval \<Rightarrow> obj" where
  "own_props (JObj kvs) = kvs"
| "own_props (JArr xs) = indexed 0 xs"
| "own_props (JStr s) = indexed 0 (map (\<lambda>c. JStr [c]) s)"
| "own_props v = []"

text \<open>
  An object literal: \<open>literal base kvs\<close> is \<^verbatim>\<open>{...base, k1: v1, k2: v2, ...}\<close>, the
  properties defined from left to right.
\<close>

definition literal :: "obj \<Rightarrow> obj \<Rightarrow> obj" where
  "literal base kvs = foldl (\<lambda>ob (k, v). assign ob k v) base kvs"

text \<open>The rest of a destructuring pattern: every property but the named ones.\<close>

definition rest_props :: "obj \<Rightarrow> string list \<Rightarrow> obj" where
  "rest_props ob ks = filter (\<lambda>(k, v). k \<notin> set ks) ob"

text \<open>
  \<^verbatim>\<open>v.k\<close> and \<^verbatim>\<open>v?.[k]\<close>. Reading a property of \<^verbatim>\<open>undefined\<close> or \<^verbatim>\<open>null\<close> throws a
  TypeError (reads as \<^verbatim>\<open>undefined\<close> under \<^verbatim>\<open>?.\<close>). The code reads the properties
  \<^verbatim>\<open>Content-Type\<close>, \<^verbatim>\<open>beforeRequest\<close> and \<^verbatim>\<open>afterResponse\<close> only, which no primitive,
  array, function or signal has.
\<close>

datatype thrown = TypeError | SyntaxError | AbortError | OtherError string

fun member :: "jsval \<Rightarrow> string \<Rightarrow> thrown + jsval" where
  "member JUndefined k = Inl TypeError"
| "member JNull k = Inl TypeError"
| "member (JObj kvs) k = Inr (get_prop kvs k)"
| "member v k = Inr JUndefined"

fun opt_member :: "jsval \<Rightarrow> string \<Rightarrow> jsval" where
  "opt_member (JObj kvs) k = get_prop kvs k"
| "opt_member v k = JUndefined"

section \<open>The enums and constants of fetchData.ts\<close>

datatype HTTPMethod = GET | PUT | POST | PATCH | DELETE

fun HTTPMethod_value :: "HTTPMethod \<Rightarrow> string" where
  "HTTPMethod_value GET = ''get''"
| "HTTPMethod_value PUT = ''put''"
| "HTTPMethod_value POST = ''post''"
| "HTTPMethod_value PATCH = ''patch''"
| "HTTPMethod_value DELETE = ''delete''"

datatype ResponseBodyType = JSON | BLOB | TEXT | FORM_DATA | ARRAY_BUFFER

fun ResponseBodyType_value :: "ResponseBodyType \<Rightarrow> string" where
  "ResponseBodyType_value JSON = ''json''"
| "ResponseBodyType_value BLOB = ''blob''"
| "ResponseBodyType_value TEXT = ''text''"
| "ResponseBodyType_value FORM_DATA = ''formData''"
| "ResponseBodyType_value ARRAY_BUFFER = ''arrayBuffer''"

definition isObject :: "jsval \<Rightarrow> bool" where
  "isObject input = (typeof input = ''object'' \<and> input \<noteq> JNull)"

definition enumKeys :: "HTTPMethod list" where
  "enumKeys = [GET, PUT, POST, PATCH, DELETE]"

definition DEFAULT_EXPECTED_DATA_TYPE :: string where
  "DEFAULT_EXPECTED_DATA_TYPE = ''json''"

definition CONTENT_TYPE_HEADER :: obj where
  "CONTENT_TYPE_HEADER = [(''Content-Type'', JStr ''application/json;charset=utf-8'')]"

definition CONTENT_TYPE_HEADER_TITLE :: string where
  "CONTENT_TYPE_HEADER_TITLE = fst (hd CONTENT_TYPE_HEADER)"

section \<open>constructURL\<close>

definition startsWith :: "string \<Rightarrow> string \<Rightarrow> bool" where
  "startsWith s p = (take (length p) s = p)"

definition endsWith :: "string \<Rightarrow> string \<Rightarrow> bool" where
  "endsWith s p = (length p \<le> length s \<and> drop (length s - length p) s = p)"

text \<open>\<^verbatim>\<open>url.replace(/^\//, "")\<close>\<close>

definition replace_leading_slash :: "string \<Rightarrow> string" where
  "replace_leading_slash url =
    (case url of [] \<Rightarrow> url | c # cs \<Rightarrow> if c = CHR ''/'' then cs else url)"

text \<open>
  \<^verbatim>\<open>urlPrefix\<close> is read from the untyped options, so it is a JavaScript value: absent
  it is \<^verbatim>\<open>undefined\<close>. A truthy value that is not a string has no \<^verbatim>\<open>endsWith\<close> method and
  the call on line 135 throws a TypeError.
\<close>

definition constructURL :: "string \<Rightarrow> jsval \<Rightarrow> thrown + string" where
  "constructURL url urlPrefix =
    (if \<not> truthy urlPrefix then Inr url
     else case urlPrefix of
       JStr p \<Rightarrow>
         (let resultURL = (if startsWith url ''/'' then replace_leading_slash url else url);
              resultURLPrefix = (if \<not> endsWith p ''/'' then p @ ''/'' else p)
          in Inr (resultURLPrefix @ resultURL))
     | _ \<Rightarrow> Inl TypeError)"

section \<open>The store\<close>

text \<open>
  The code builds a new object at every step and assigns to properties of one of them
  (\<^verbatim>\<open>options.headers = ...\<close>, \<^verbatim>\<open>options.body = ...\<close> in optionsReducer). To tell an
  assignment to a fresh object from one to an object of the caller, the objects that the
  code is given or creates live in a store and are referred to by address (their index);
  an allocation appends to the store. The values of their properties are held by value:
  the code never assigns through a nested reference.
\<close>

type_synonym addr = nat
type_synonym store = "obj list"

definition alloc :: "obj \<Rightarrow> store \<Rightarrow> addr \<times> store" where
  "alloc ob s = (length s, s @ [ob])"

section \<open>The host: Request, Response, fetch and the hooks\<close>

text \<open>
  A \<^verbatim>\<open>Request\<close> is represented by the two arguments of its constructor, and a
  \<^verbatim>\<open>Response\<close> by its status line and payload; \<^verbatim>\<open>response.ok\<close> is, by the Fetch
  standard, that the status is in the range 200 to 299.
\<close>

record Request =
  url :: string
  init :: obj

record Response =
  response_status :: nat
  response_statusText :: string
  response_body :: string

definition ok :: "Response \<Rightarrow> bool" where
  "ok response = (200 \<le> response_status response \<and> response_status response \<le> 299)"

text \<open>
  What a promise of the code rejects with: the error built by \<^verbatim>\<open>CommonHttpError\<close> on
  lines 200 to 204 (message, code, response, request, context), or whatever the host or a
  hook threw.
\<close>

datatype error =
    CommonHttpError string nat Response Request string
  | Thrown thrown

datatype 'a promise = Pending | Rejected error | Fulfilled 'a

text \<open>
  The behaviour of everything the code calls but does not define: what the function
  \<open>JFun n\<close> does when called as a hook (a beforeRequest hook may change the request or
  throw; an afterResponse hook may throw), how \<^verbatim>\<open>fetch(request)\<close> settles, how
  \<^verbatim>\<open>response[key]()\<close> settles, and what \<^verbatim>\<open>JSON.stringify\<close> makes of a value (a text,
  \<^verbatim>\<open>undefined\<close>, or an exception).
\<close>

record host =
  beforeRequestHook :: "nat \<Rightarrow> Request \<Rightarrow> thrown + Request"
  afterResponseHook :: "nat \<Rightarrow> Response \<Rightarrow> thrown option"
  fetch :: "Request \<Rightarrow> Response promise"
  resolveBody :: "jsval \<Rightarrow> Response \<Rightarrow> jsval promise"
  stringify :: "jsval \<Rightarrow> thrown + string option"

text \<open>\<^verbatim>\<open>for (const hook of hooks)\<close>: arrays and strings are iterable.\<close>

fun iterate :: "jsval \<Rightarrow> thrown + jsval list" where
  "iterate (JArr xs) = Inr xs"
| "iterate (JStr s) = Inr (map (\<lambda>c. JStr [c]) s)"
| "iterate v = Inl TypeError"

fun beforeRequestLoop :: "host \<Rightarrow> jsval list \<Rightarrow> Request \<Rightarrow> thrown + Request" where
  "beforeRequestLoop h [] req = Inr req"
| "beforeRequestLoop h (hook # hooks) req =
     (case hook of
        JFun n \<Rightarrow>
          (case beforeRequestHook h n req of
             Inl e \<Rightarrow> Inl e
           | Inr req' \<Rightarrow> beforeRequestLoop h hooks req')
      | _ \<Rightarrow> Inl TypeError)"

definition runBeforeRequestHooks :: "host \<Rightarrow> jsval \<Rightarrow> Request \<Rightarrow> thrown + Request" where
  "runBeforeRequestHooks h hooks req =
    (case iterate hooks of Inl e \<Rightarrow> Inl e | Inr hs \<Rightarrow> beforeRequestLoop h hs req)"

fun afterResponseLoop :: "host \<Rightarrow> jsval list \<Rightarrow> Response \<Rightarrow> thrown option" where
  "afterResponseLoop h [] response = None"
| "afterResponseLoop h (hook # hooks) response =
     (case hook of
        JFun n \<Rightarrow>
          (case afterResponseHook h n response of
             Some e \<Rightarrow> Some e
           | None \<Rightarrow> afterResponseLoop h hooks response)
      | _ \<Rightarrow> Some TypeError)"

definition runAfterResponseHooks :: "host \<Rightarrow> jsval \<Rightarrow> Response \<Rightarrow> thrown option" where
  "runAfterResponseHooks h hooks response =
    (case iterate hooks of Inl e \<Rightarrow> Some e | Inr hs \<Rightarrow> afterResponseLoop h hs response)"

section \<open>JSON.stringify\<close>

text \<open>
  \<^verbatim>\<open>JSON.stringify(v)\<close> yields a text or \<^verbatim>\<open>undefined\<close> (\<open>None\<close>), or throws. For the
  values that are not objects the standard (ECMA-262, SerializeJSONProperty) fixes the
  result without looking at anything else: \<^verbatim>\<open>undefined\<close> has no text, \<^verbatim>\<open>null\<close> and the
  booleans print as their names, and a string is quoted and escaped (QuoteJSONString).
  For every other value (a number, an array, an object, a function, a signal) the result
  is the host's: it depends on how the host prints numbers, on the \<^verbatim>\<open>toJSON\<close> methods
  it finds and calls, and it may be an exception.
\<close>

definition quoteJSONChar :: "char \<Rightarrow> string" where
  "quoteJSONChar c =
    (if c = CHR 0x22 then [CHR 0x5C, CHR 0x22]
     else if c = CHR 0x5C then [CHR 0x5C, CHR 0x5C]
     else if c = CHR 0x08 then [CHR 0x5C, CHR ''b'']
     else if c = CHR 0x0C then [CHR 0x5C, CHR ''f'']
     else if c = CHR 0x0A then [CHR 0x5C, CHR ''n'']
     else if c = CHR 0x0D then [CHR 0x5C, CHR ''r'']
     else if c = CHR 0x09 then [CHR 0x5C, CHR ''t'']
     else if (of_char c :: nat) < 32
       then [CHR 0x5C, CHR ''u'', CHR ''0'', CHR ''0'',
             digit (of_char c div 16), digit (of_char c mod 16)]
     else [c])"

definition quoteJSONString :: "string \<Rightarrow> string" where
  "quoteJSONString s = CHR 0x22 # concat (map quoteJSONChar s) @ [CHR 0x22]"

definition JSON_stringify :: "host \<Rightarrow> jsval \<Rightarrow> thrown + string option" where
  "JSON_stringify h v =
    (case v of
       JUndefined \<Rightarrow> Inr None
     | JNull \<Rightarrow> Inr (Some ''null'')
     | JBool b \<Rightarrow> Inr (Some (if b then ''true'' else ''false''))
     | JStr t \<Rightarrow> Inr (Some (quoteJSONString t))
     | _ \<Rightarrow> stringify h v)"

text \<open>The value of the expression \<^verbatim>\<open>JSON.stringify(v)\<close> when it does not throw.\<close>

definition stringified :: "string option \<Rightarrow> jsval" where
  "stringified t = (case t of None \<Rightarrow> JUndefined | Some x \<Rightarrow> JStr x)"

section \<open>optionsReducer\<close>

text \<open>
  \<open>options\<close> is the address of the object passed in; the function assigns to its
  properties in place and returns the same object, or throws what \<^verbatim>\<open>JSON.stringify\<close>
  throws (\<open>Some e\<close>), the headers then being already assigned.
\<close>

definition optionsReducer :: "host \<Rightarrow> addr \<Rightarrow> HTTPMethod \<Rightarrow> store \<Rightarrow> thrown option \<times> store" where
  "optionsReducer h options httpMethod s =
    (if httpMethod = POST \<or> httpMethod = PUT \<or> httpMethod = PATCH then
       let s1 =
             (if isObject (get_prop (s ! options) ''body'') \<and>
                 \<not> truthy (opt_member (get_prop (s ! options) ''headers'') CONTENT_TYPE_HEADER_TITLE)
              then s[options := assign (s ! options) ''headers''
                     (JObj (literal
                        (literal [] (own_props (js_or (get_prop (s ! options) ''headers'') (JObj []))))
                        CONTENT_TYPE_HEADER))]
              else s)
       in if truthy (get_prop (s1 ! options) ''body'') then
            (case JSON_stringify h (get_prop (s1 ! options) ''body'') of
               Inl e \<Rightarrow> (Some e, s1)
             | Inr t \<Rightarrow> (None, s1[options := assign (s1 ! options) ''body'' (stringified t)]))
          else (None, s1)
     else (None, s))"

section \<open>internalFetch\<close>

record FetchDataResponse =
  cancel :: addr
  status :: nat
  statusText :: string
  data :: jsval

record PendingCall =
  request :: "FetchDataResponse promise"
  cancelRequest :: addr

text \<open>
  Lines 158 to 180: the destructuring of the options, the URL, the AbortController and
  the Request. The result is the Request, the AbortController (which stands for the
  closure \<^verbatim>\<open>cancelRequest\<close> that aborts it) and the values of \<^verbatim>\<open>hooks\<close> and \<^verbatim>\<open>type\<close>,
  or what constructURL or optionsReducer threw.
\<close>

definition newRequest ::
  "host \<Rightarrow> string \<Rightarrow> addr \<Rightarrow> HTTPMethod \<Rightarrow> store \<Rightarrow>
   (thrown + Request \<times> addr \<times> jsval \<times> jsval) \<times> store"
where
  "newRequest h url' originalOptions httpMethod s =
    (let type = get_prop (s ! originalOptions) ''type'';
         urlPrefix = get_prop (s ! originalOptions) ''urlPrefix'';
         hooks = (if get_prop (s ! originalOptions) ''hooks'' = JUndefined then JObj []
                  else get_prop (s ! originalOptions) ''hooks'');
         (options, s1) = alloc (rest_props (s ! originalOptions) [''type'', ''urlPrefix'', ''hooks'']) s
     in case constructURL url' urlPrefix of
          Inl e \<Rightarrow> (Inl e, s1)
        | Inr resultURL \<Rightarrow>
            (let (abortController, s2) = alloc [] s1;
                 (reduced, s3) = alloc (literal (literal [] (s2 ! options))
                                          [(''signal'', JSignal abortController)]) s2
             in case optionsReducer h reduced httpMethod s3 of
                  (Some e, s4) \<Rightarrow> (Inl e, s4)
                | (None, s4) \<Rightarrow>
                    (Inr (\<lparr>url = resultURL, init = s4 ! reduced\<rparr>, abortController, hooks, type),
                     s4)))"

text \<open>Lines 187 to 221: the body of the asynchronous function, as the way it settles.\<close>

definition asyncBody ::
  "host \<Rightarrow> jsval \<Rightarrow> jsval \<Rightarrow> Request \<Rightarrow> addr \<Rightarrow> FetchDataResponse promise"
where
  "asyncBody h hooks type req abortController =
    (case fetch h req of
       Pending \<Rightarrow> Pending
     | Rejected e \<Rightarrow> Rejected e
     | Fulfilled response \<Rightarrow>
         (case (case member hooks ''afterResponse'' of
                  Inl e \<Rightarrow> Some e
                | Inr hs \<Rightarrow> if truthy hs then runAfterResponseHooks h hs response else None) of
            Some e \<Rightarrow> Rejected (Thrown e)
          | None \<Rightarrow>
              if \<not> ok response then
                Rejected (CommonHttpError ''Request is not resolved successfully''
                            (response_status response) response req ''@j.u.p.iter/fetch-data'')
              else
                (let expectedDataType = js_or type (JStr DEFAULT_EXPECTED_DATA_TYPE)
                 in case resolveBody h expectedDataType response of
                      Pending \<Rightarrow> Pending
                    | Rejected e \<Rightarrow> Rejected e
                    | Fulfilled responseData \<Rightarrow>
                        Fulfilled \<lparr>cancel = abortController,
                                   status = response_status response,
                                   statusText = response_statusText response,
                                   data = responseData\<rparr>)))"

definition internalFetch ::
  "host \<Rightarrow> string \<Rightarrow> addr \<Rightarrow> HTTPMethod \<Rightarrow> store \<Rightarrow> (thrown + PendingCall) \<times> store"
where
  "internalFetch h url' originalOptions httpMethod s =
    (case newRequest h url' originalOptions httpMethod s of
       (Inl e, s') \<Rightarrow> (Inl e, s')
     | (Inr (req, abortController, hooks, type), s') \<Rightarrow>
         (case member hooks ''beforeRequest'' of
            Inl e \<Rightarrow> (Inl e, s')
          | Inr hs \<Rightarrow>
              (case (if truthy hs then runBeforeRequestHooks h hs req else Inr req) of
                 Inl e \<Rightarrow> (Inl e, s')
               | Inr req' \<Rightarrow>
                   (Inr \<lparr>request = asyncBody h hooks type req' abortController,
                         cancelRequest = abortController\<rparr>, s'))))"

section \<open>createFetchData\<close>

text \<open>
  Modelled from the spec: \<^verbatim>\<open>deepMerge\<close> is the default export of the npm package
  \<^verbatim>\<open>deepmerge\<close>, whose source is not part of the repository. The spec's merge policy:
  "deep-merge defaults and call options, call options take precedence per key; nested
  mapping keys (e.g., headers) merge rather than replace wholesale", and "merge produces
  a new value". So a key of the second object whose value and whose value in the first
  object are both mappings gets their merge, and any other key of the second object gets
  the second object's value.
\<close>

fun deepMerge :: "obj \<Rightarrow> obj \<Rightarrow> obj" where
  "deepMerge target [] = target"
| "deepMerge target ((k, v) # source) =
     deepMerge
       (assign target k
          (case v of
             JObj sv \<Rightarrow> (case map_of target k of Some (JObj tv) \<Rightarrow> JObj (deepMerge tv sv) | _ \<Rightarrow> v)
           | _ \<Rightarrow> v))
       source"

text \<open>
  The function stored under each method's name on lines 242 to 256, for the client
  whose default options are the object at \<open>defaultOptions\<close> (an empty object when
  createFetchData is called without an argument). \<open>options\<close> is \<open>None\<close> when the call
  passes no options, and the default \<^verbatim>\<open>{}\<close> is created.
\<close>

definition shortcut ::
  "host \<Rightarrow> addr \<Rightarrow> HTTPMethod \<Rightarrow> string \<Rightarrow> addr option \<Rightarrow> store \<Rightarrow> (thrown + PendingCall) \<times> store"
where
  "shortcut h defaultOptions httpMethod url' options s =
    (let (opts, s0) = (case options of None \<Rightarrow> alloc [] s | Some a \<Rightarrow> (a, s));
         (mergedOptions, s1) = alloc (deepMerge (s0 ! defaultOptions) (s0 ! opts)) s0;
         (originalOptions, s2) =
            alloc (literal [(''method'', JStr (HTTPMethod_value httpMethod))] (s1 ! mergedOptions)) s1
     in internalFetch h url' originalOptions httpMethod s2)"

definition createFetchData ::
  "host \<Rightarrow> addr \<Rightarrow>
   (string \<rightharpoonup> (string \<Rightarrow> addr option \<Rightarrow> store \<Rightarrow> (thrown + PendingCall) \<times> store))"
where
  "createFetchData h defaultOptions =
    foldl (\<lambda>resultFetchData httpMethod.
             resultFetchData(HTTPMethod_value httpMethod \<mapsto> shortcut h defaultOptions httpMethod))
          Map.empty enumKeys"

section \<open>Inputs of the properties\<close>

text \<open>
  Every registered afterResponse hook returns normally: \<^verbatim>\<open>hooks\<close> is an object whose
  \<^verbatim>\<open>afterResponse\<close> is absent or an array of functions, none of which throws when
  called with the response.
\<close>

fun returnsNormally :: "host \<Rightarrow> Response \<Rightarrow> jsval \<Rightarrow> bool" where
  "returnsNormally h response (JFun n) = (afterResponseHook h n response = None)"
| "returnsNormally h response v = False"

definition afterResponseHooksReturn :: "host \<Rightarrow> jsval \<Rightarrow> Response \<Rightarrow> bool" where
  "afterResponseHooksReturn h hooks response =
    (case hooks of
       JObj kvs \<Rightarrow>
         (case get_prop kvs ''afterResponse'' of
            JUndefined \<Rightarrow> True
          | JArr fs \<Rightarrow> list_all (returnsNormally h response) fs
          | _ \<Rightarrow> False)
     | _ \<Rightarrow> False)"

text \<open>
  A host for the examples: no beforeRequest hook changes the request, every
  afterResponse hook ends as \<open>hook\<close> says, \<^verbatim>\<open>fetch\<close> is fulfilled with \<open>response\<close>, and
  \<^verbatim>\<open>response.json()\<close> settles as \<open>parsed\<close> (the other keys are not used). Of its
  \<^verbatim>\<open>JSON.stringify\<close> only two results matter: an object with one property whose value is
  a string prints as JSON has it, and an object whose \<^verbatim>\<open>toJSON\<close> is a function throws
  what that function throws.
\<close>

definition example_stringify :: "jsval \<Rightarrow> thrown + string option" where
  "example_stringify v =
    (case v of
       JObj [(k, JStr x)] \<Rightarrow> Inr (Some (''{'' @ quoteJSONString k @ '':'' @ quoteJSONString x @ ''}''))
     | JObj [(k, JFun f)] \<Rightarrow> Inl (OtherError ''toJSON failed'')
     | _ \<Rightarrow> Inr (Some ''{}''))"

definition example_host :: "Response \<Rightarrow> jsval promise \<Rightarrow> thrown option \<Rightarrow> host" where
  "example_host response parsed hook =
    \<lparr>beforeRequestHook = (\<lambda>n req. Inr req),
     afterResponseHook = (\<lambda>n r. hook),
     fetch = (\<lambda>req. Fulfilled response),
     resolveBody = (\<lambda>key r. if key = JStr ''json'' then parsed else Pending),
     stringify = example_stringify\<rparr>"

definition example_request :: Request where
  "example_request =
    \<lparr>url = ''http://some-url.com/products'',
     init = [(''method'', JStr ''get''), (''signal'', JSignal 5)]\<rparr>"

definition response_200 :: Response where
  "response_200 =
    \<lparr>response_status = 200, response_statusText = ''OK'', response_body = ''{}''\<rparr>"

definition response_204 :: Response where
  "response_204 =
    \<lparr>response_status = 204, response_statusText = ''No Content'', response_body = []\<rparr>"

definition response_400 :: Response where
  "response_400 =
    \<lparr>response_status = 400, response_statusText = ''Bad Request'', response_body = []\<rparr>"


text \<open>The client defaults and the options of a call, for the examples of the merge.\<close>

definition example_defaults :: obj where
  "example_defaults =
    [(''urlPrefix'', JStr ''http://site.com''),
     (''headers'', JObj [(''Authentication'', JStr ''secret'')])]"

definition example_options :: obj where
  "example_options =
    [(''headers'', JObj [(''Accept'', JStr ''text/plain'')]),
     (''body'', JObj [(''title'', JStr ''new title'')])]"

section \<open>Facts about the helpers\<close>

lemma map_of_assign: "map_of (assign ob k v) k' = (if k' = k then Some v else map_of ob k')"
  by (induction ob) auto



lemma startsWith_slash: "startsWith R ''/'' = (\<exists>R'. R = CHR ''/'' # R')"
  by (cases R) (auto simp: startsWith_def)

lemma endsWith_slash: "endsWith P ''/'' = (P \<noteq> [] \<and> last P = CHR ''/'')"
proof (cases P rule: rev_cases)
  case Nil
  then show ?thesis by (simp add: endsWith_def)
next
  case (snoc ys y)
  then show ?thesis by (auto simp: endsWith_def)
qed









section \<open>The URL composer\<close>

text \<open>
  Claim C5. constructURL is a function of its two arguments alone and throws for no
  string. Without a prefix (\<^verbatim>\<open>undefined\<close>, or the empty string, which line 119 treats
  alike) the path comes back unchanged. Otherwise the result is the prefix, followed by
  one \<^verbatim>\<open>/\<close> when the prefix does not already end with one, followed by the path without
  its first character when that is a \<^verbatim>\<open>/\<close>. In particular a prefix \<open>P\<close> that does not
  end with \<^verbatim>\<open>/\<close> and a path \<^verbatim>\<open>/\<close>\<open>R'\<close> give \<open>P\<close>\<^verbatim>\<open>/\<close>\<open>R'\<close>, and a prefix \<open>P\<close> that ends
  with \<^verbatim>\<open>/\<close> and a path \<^verbatim>\<open>/\<close>\<open>R'\<close> give \<open>P R'\<close>. (The claim states its two closing equations
  for every prefix, so "ends with exactly one slash" is read as they read it: a prefix
  that ends with a slash is kept as it is.)
\<close>

theorem constructURL_contract:
  "constructURL R JUndefined = Inr R
   \<and> constructURL R (JStr []) = Inr R
   \<and> (P \<noteq> [] \<longrightarrow>
        constructURL R (JStr P) =
          Inr ((if last P = CHR ''/'' then P else P @ ''/'')
               @ (case R of [] \<Rightarrow> R | c # cs \<Rightarrow> if c = CHR ''/'' then cs else R)))
   \<and> (P = [] \<or> last P \<noteq> CHR ''/'' \<longrightarrow>
        constructURL (CHR ''/'' # R') (JStr P) = Inr (P @ ''/'' @ R'))
   \<and> (P \<noteq> [] \<and> last P = CHR ''/'' \<longrightarrow>
        constructURL (CHR ''/'' # R') (JStr P) = Inr (P @ R'))
   \<and> (\<exists>u. constructURL R (JStr P) = Inr u)"
  by (cases R)
    (auto simp: constructURL_def endsWith_slash startsWith_slash replace_leading_slash_def Let_def)

theorem constructURL_contract_witness:
  "constructURL ''/products'' (JStr ''http://some-url.com'') = Inr ''http://some-url.com/products''
   \<and> constructURL ''/products'' (JStr ''http://some-url.com/'') = Inr ''http://some-url.com/products''
   \<and> constructURL ''products'' (JStr ''http://site.com'') = Inr ''http://site.com/products''
   \<and> constructURL ''products'' JUndefined = Inr ''products''"
proof -
  note a = constructURL_contract [of "''/products''" "''http://some-url.com''" "''products''"]
  note b = constructURL_contract [of "''/products''" "''http://some-url.com/''" "''products''"]
  note c = constructURL_contract [of "''products''" "''http://site.com''"]
  from a have 1: "constructURL ''/products'' (JStr ''http://some-url.com'')
      = Inr ''http://some-url.com/products''"
    by simp
  from b have 2: "constructURL ''/products'' (JStr ''http://some-url.com/'')
      = Inr ''http://some-url.com/products''"
    by simp
  from c have 3: "constructURL ''products'' (JStr ''http://site.com'') = Inr ''http://site.com/products''"
    and 4: "constructURL ''products'' JUndefined = Inr ''products''"
    by simp_all
  from 1 2 3 4 show ?thesis by simp
qed

text \<open>
  Claim C10. With the empty string as prefix constructURL returns the path unchanged,
  exactly as it does without a prefix.
\<close>

theorem constructURL_empty_prefix:
  "constructURL R (JStr []) = Inr R \<and> constructURL R (JStr []) = constructURL R JUndefined"
  by (simp add: constructURL_def)

section \<open>The body encoding\<close>

lemma take_optionsReducer: "n \<le> a \<Longrightarrow> take n (snd (optionsReducer h a m s)) = take n s"
  by (simp add: optionsReducer_def Let_def split: sum.splits)


lemma optionsReducer_unchanged:
  "httpMethod = GET \<or> httpMethod = DELETE \<Longrightarrow> optionsReducer h a httpMethod s = (None, s)"
  by (auto simp: optionsReducer_def)


text \<open>
  Claim C2 (the code does otherwise). A POST with the string body \<^verbatim>\<open>hello\<close>: the guard
  on line 110 is the truthiness of the body, so the string goes through
  \<^verbatim>\<open>JSON.stringify\<close> as well and the options handed to \<^verbatim>\<open>Request\<close> carry the seven
  characters \<^verbatim>\<open>"hello"\<close>, quotes included. No header is added.
\<close>

theorem optionsReducer_string_body:
  "optionsReducer h 0 POST [[(''body'', JStr ''hello''), (''signal'', JSignal 5)]]
     = (None, [[(''body'', JStr (CHR 0x22 # ''hello'' @ [CHR 0x22])), (''signal'', JSignal 5)]])"
  by (simp add: optionsReducer_def Let_def get_prop_def isObject_def JSON_stringify_def
      stringified_def quoteJSONString_def quoteJSONChar_def)

section \<open>The request of a call\<close>

text \<open>
  newRequest, spelled out: the rest of the options at the first new address, the
  AbortController at the second, and the object given to optionsReducer at the third.
\<close>

lemma newRequest_unfold:
  "newRequest h u p m s =
    (case constructURL u (get_prop (s ! p) ''urlPrefix'') of
       Inl e \<Rightarrow> (Inl e, s @ [rest_props (s ! p) [''type'', ''urlPrefix'', ''hooks'']])
     | Inr resultURL \<Rightarrow>
         (case optionsReducer h (Suc (Suc (length s))) m
                 (s @ [rest_props (s ! p) [''type'', ''urlPrefix'', ''hooks''], [],
                       literal (literal [] (rest_props (s ! p) [''type'', ''urlPrefix'', ''hooks'']))
                         [(''signal'', JSignal (Suc (length s)))]]) of
            (Some e, s4) \<Rightarrow> (Inl e, s4)
          | (None, s4) \<Rightarrow>
              (Inr (\<lparr>url = resultURL, init = s4 ! Suc (Suc (length s))\<rparr>, Suc (length s),
                    (if get_prop (s ! p) ''hooks'' = JUndefined then JObj []
                     else get_prop (s ! p) ''hooks''),
                    get_prop (s ! p) ''type''),
               s4)))"
  by (simp add: newRequest_def alloc_def Let_def nth_append
      split: sum.splits prod.splits option.splits)

lemma newRequest_fst:
  "fst (newRequest h u p m s) =
    (case constructURL u (get_prop (s ! p) ''urlPrefix'') of
       Inl e \<Rightarrow> Inl e
     | Inr resultURL \<Rightarrow>
         (case fst (optionsReducer h (Suc (Suc (length s))) m
                 (s @ [rest_props (s ! p) [''type'', ''urlPrefix'', ''hooks''], [],
                       literal (literal [] (rest_props (s ! p) [''type'', ''urlPrefix'', ''hooks'']))
                         [(''signal'', JSignal (Suc (length s)))]])) of
            Some e \<Rightarrow> Inl e
          | None \<Rightarrow>
              Inr (\<lparr>url = resultURL,
                    init = snd (optionsReducer h (Suc (Suc (length s))) m
                      (s @ [rest_props (s ! p) [''type'', ''urlPrefix'', ''hooks''], [],
                            literal (literal [] (rest_props (s ! p) [''type'', ''urlPrefix'', ''hooks'']))
                              [(''signal'', JSignal (Suc (length s)))]])) ! Suc (Suc (length s))\<rparr>,
                   Suc (length s),
                   (if get_prop (s ! p) ''hooks'' = JUndefined then JObj []
                    else get_prop (s ! p) ''hooks''),
                   get_prop (s ! p) ''type'')))"
  by (simp add: newRequest_unfold split: sum.splits prod.splits option.splits)

lemma internalFetch_fst:
  "fst (internalFetch h u p m s) =
    (case fst (newRequest h u p m s) of
       Inl e \<Rightarrow> Inl e
     | Inr (req, c, hooks, type) \<Rightarrow>
         (case member hooks ''beforeRequest'' of
            Inl e \<Rightarrow> Inl e
          | Inr hs \<Rightarrow>
              (case (if truthy hs then runBeforeRequestHooks h hs req else Inr req) of
                 Inl e \<Rightarrow> Inl e
               | Inr req' \<Rightarrow> Inr \<lparr>request = asyncBody h hooks type req' c, cancelRequest = c\<rparr>)))"
  by (cases "newRequest h u p m s") (simp add: internalFetch_def split: sum.splits prod.splits)





section \<open>The dispatcher\<close>

text \<open>
  Claim C1 (the code does otherwise). The call of the test "rewrites the original query
  string": a GET of a URL with the query \<^verbatim>\<open>v=someValue&z=anotherValue\<close> and the option
  \<^verbatim>\<open>searchParams: {q: "hello", m: "value"}\<close>, on a client without defaults (the client's
  defaults at address 0, the call's options at address 1). The request given to
  \<^verbatim>\<open>fetch\<close> has the URL of the call with its own query; \<^verbatim>\<open>searchParams\<close> is only
  copied into the options of the \<^verbatim>\<open>Request\<close>.
\<close>

theorem shortcut_searchParams:
  "fst (shortcut h 0 GET ''http://some-url.com/products?v=someValue&z=anotherValue'' (Some 1)
          [[], [(''searchParams'', JObj [(''q'', JStr ''hello''), (''m'', JStr ''value'')])]])
   = Inr \<lparr>request = asyncBody h (JObj []) JUndefined
            \<lparr>url = ''http://some-url.com/products?v=someValue&z=anotherValue'',
             init = [(''method'', JStr ''get''),
                     (''searchParams'', JObj [(''q'', JStr ''hello''), (''m'', JStr ''value'')]),
                     (''signal'', JSignal 5)]\<rparr> 5,
           cancelRequest = 5\<rparr>"
  by (simp add: shortcut_def internalFetch_def newRequest_def alloc_def Let_def literal_def
      get_prop_def rest_props_def constructURL_def optionsReducer_def eval_nat_numeral)

text \<open>
  Claim C4 (the code does otherwise). The \<^verbatim>\<open>get\<close> shortcut of a client is the function
  bound to GET, and called with the options \<^verbatim>\<open>{method: "post"}\<close> it builds a request
  whose method is \<^verbatim>\<open>post\<close>: on line 251 the merged options are spread after
  \<^verbatim>\<open>method\<close>, so their \<^verbatim>\<open>method\<close> replaces the bound one.
\<close>

theorem shortcut_method_option:
  "createFetchData h 0 ''get'' = Some (shortcut h 0 GET)
   \<and> fst (shortcut h 0 GET ''http://some-url.com/products'' (Some 1)
            [[], [(''method'', JStr ''post'')]])
     = Inr \<lparr>request = asyncBody h (JObj []) JUndefined
              \<lparr>url = ''http://some-url.com/products'',
               init = [(''method'', JStr ''post''), (''signal'', JSignal 5)]\<rparr> 5,
             cancelRequest = 5\<rparr>"
  by (simp add: createFetchData_def enumKeys_def shortcut_def internalFetch_def newRequest_def
      alloc_def Let_def literal_def get_prop_def rest_props_def constructURL_def optionsReducer_def
      eval_nat_numeral)

lemma afterResponseLoop_returns:
  "list_all (returnsNormally h response) fs \<Longrightarrow> afterResponseLoop h fs response = None"
proof (induction fs)
  case Nil
  then show ?case by simp
next
  case (Cons f fs)
  then obtain n where "f = JFun n" and "afterResponseHook h n response = None"
    by (cases f) auto
  with Cons show ?case by simp
qed

lemma afterResponseHooksReturn_None:
  assumes "afterResponseHooksReturn h hooks response"
  shows "(case member hooks ''afterResponse'' of
            Inl e \<Rightarrow> Some e
          | Inr hs \<Rightarrow> if truthy hs then runAfterResponseHooks h hs response else None) = None"
proof -
  from assms obtain kvs where hooks: "hooks = JObj kvs"
    by (cases hooks) (simp_all add: afterResponseHooksReturn_def)
  show ?thesis
  proof (cases "get_prop kvs ''afterResponse''")
    case (JArr fs)
    with assms hooks have "list_all (returnsNormally h response) fs"
      by (simp add: afterResponseHooksReturn_def)
    then have "afterResponseLoop h fs response = None"
      by (rule afterResponseLoop_returns)
    with hooks JArr show ?thesis
      by (simp add: runAfterResponseHooks_def)
  qed (use assms hooks in \<open>simp_all add: afterResponseHooksReturn_def\<close>)
qed

lemma asyncBody_rejects:
  assumes "fetch h req = Fulfilled response" and "\<not> ok response"
  shows "\<exists>e. asyncBody h hooks type req c = Rejected e"
  using assms by (simp add: asyncBody_def split: option.splits sum.splits)

text \<open>
  Claim C6, as stated, fails: a response with status 400 arrives and the registered
  afterResponse hook throws; the hooks run before the status is looked at (lines 190 to
  192), so the promise rejects with what the hook threw and not with the HTTP error.
\<close>

theorem asyncBody_error_status_counterexample:
  "fetch (example_host response_400 Pending (Some (OtherError ''hook failed''))) example_request
     = Fulfilled response_400
   \<and> response_status response_400 = 400
   \<and> asyncBody (example_host response_400 Pending (Some (OtherError ''hook failed'')))
        (JObj [(''afterResponse'', JArr [JFun 0])]) JUndefined example_request 5
     = Rejected (Thrown (OtherError ''hook failed''))"
  by (simp add: asyncBody_def example_host_def response_400_def get_prop_def
      runAfterResponseHooks_def)

text \<open>
  Claim C6, amended. When \<^verbatim>\<open>fetch\<close> is fulfilled with a response whose status is
  outside 200 to 299, the promise rejects, whatever the hooks do; and when every
  registered afterResponse hook returns normally it rejects with the HTTP error that
  carries the status code of the response, the response and the request that was sent.
\<close>

theorem asyncBody_error_status:
  "fetch h req = Fulfilled response
     \<and> \<not> (200 \<le> response_status response \<and> response_status response \<le> 299) \<longrightarrow>
   (\<exists>e. asyncBody h hooks type req c = Rejected e)
   \<and> (afterResponseHooksReturn h hooks response \<longrightarrow>
        asyncBody h hooks type req c =
          Rejected (CommonHttpError ''Request is not resolved successfully''
                      (response_status response) response req ''@j.u.p.iter/fetch-data''))"
proof (intro impI conjI)
  assume a: "fetch h req = Fulfilled response
     \<and> \<not> (200 \<le> response_status response \<and> response_status response \<le> 299)"
  then have nok: "\<not> ok response" by (simp add: ok_def)
  from a nok show "\<exists>e. asyncBody h hooks type req c = Rejected e"
    by (intro asyncBody_rejects) simp_all
  assume "afterResponseHooksReturn h hooks response"
  from afterResponseHooksReturn_None [OF this] a nok
  show "asyncBody h hooks type req c =
          Rejected (CommonHttpError ''Request is not resolved successfully''
                      (response_status response) response req ''@j.u.p.iter/fetch-data'')"
    by (simp add: asyncBody_def)
qed

theorem asyncBody_error_status_witness:
  "asyncBody (example_host response_400 Pending None) (JObj [(''afterResponse'', JArr [JFun 0])])
      JUndefined example_request 5 =
     Rejected (CommonHttpError ''Request is not resolved successfully'' 400 response_400
                 example_request ''@j.u.p.iter/fetch-data'')
   \<and> fetch (example_host response_400 Pending None) example_request = Fulfilled response_400
   \<and> afterResponseHooksReturn (example_host response_400 Pending None)
        (JObj [(''afterResponse'', JArr [JFun 0])]) response_400"
proof -
  have 1: "fetch (example_host response_400 Pending None) example_request = Fulfilled response_400"
    by (simp add: example_host_def)
  have 2: "\<not> (200 \<le> response_status response_400 \<and> response_status response_400 \<le> 299)"
    by (simp add: response_400_def)
  have 3: "afterResponseHooksReturn (example_host response_400 Pending None)
        (JObj [(''afterResponse'', JArr [JFun 0])]) response_400"
    by (simp add: afterResponseHooksReturn_def get_prop_def example_host_def)
  have 4: "response_status response_400 = 400"
    by (simp add: response_400_def)
  from asyncBody_error_status [of "example_host response_400 Pending None" example_request
      response_400 "JObj [(''afterResponse'', JArr [JFun 0])]" JUndefined 5] 1 2 3 4
  show ?thesis by simp
qed

text \<open>
  Claim C8, as stated, fails, in two ways. A response with status 204 and an empty body
  arrives, no response type is given, and \<^verbatim>\<open>response.json()\<close> rejects with a
  SyntaxError (there is no JSON text to parse): the promise rejects with that error
  instead of resolving. And a response with status 200 arrives whose body parses, but the
  registered afterResponse hook throws: the promise rejects with what the hook threw.
\<close>

theorem asyncBody_success_status_counterexample:
  "fetch (example_host response_204 (Rejected (Thrown SyntaxError)) None) example_request
     = Fulfilled response_204
   \<and> response_status response_204 = 204
   \<and> asyncBody (example_host response_204 (Rejected (Thrown SyntaxError)) None)
        (JObj []) JUndefined example_request 5
     = Rejected (Thrown SyntaxError)
   \<and> fetch (example_host response_200 (Fulfilled JNull) (Some (OtherError ''hook failed'')))
        example_request
     = Fulfilled response_200
   \<and> response_status response_200 = 200
   \<and> asyncBody (example_host response_200 (Fulfilled JNull) (Some (OtherError ''hook failed'')))
        (JObj [(''afterResponse'', JArr [JFun 0])]) JUndefined example_request 5
     = Rejected (Thrown (OtherError ''hook failed''))"
  by (simp add: asyncBody_def example_host_def response_204_def response_200_def get_prop_def
      ok_def js_or_def DEFAULT_EXPECTED_DATA_TYPE_def runAfterResponseHooks_def)

text \<open>
  Claim C8, amended. When \<^verbatim>\<open>fetch\<close> is fulfilled with a response whose status is
  within 200 to 299 and every registered afterResponse hook returns normally, the
  promise settles as the extraction method settles that the response type names
  (\<^verbatim>\<open>json\<close> when none is given): fulfilled with data, the promise resolves with the
  envelope of the response's status and status text, that data and the call's cancel
  handle; rejected, the promise rejects with the same error; and while it is pending so
  is the promise.
\<close>

theorem asyncBody_success_status:
  "fetch h req = Fulfilled response
     \<and> 200 \<le> response_status response \<and> response_status response \<le> 299
     \<and> afterResponseHooksReturn h hooks response
     \<and> (type = JUndefined \<and> key = JStr ''json'' \<or> type = JStr (ResponseBodyType_value t) \<and> key = type)
   \<longrightarrow>
   (resolveBody h key response = Fulfilled d \<longrightarrow>
      asyncBody h hooks type req c =
        Fulfilled \<lparr>cancel = c, status = response_status response,
                   statusText = response_statusText response, data = d\<rparr>)
   \<and> (resolveBody h key response = Rejected e \<longrightarrow> asyncBody h hooks type req c = Rejected e)
   \<and> (resolveBody h key response = Pending \<longrightarrow> asyncBody h hooks type req c = Pending)"
proof (intro impI)
  assume a: "fetch h req = Fulfilled response
     \<and> 200 \<le> response_status response \<and> response_status response \<le> 299
     \<and> afterResponseHooksReturn h hooks response
     \<and> (type = JUndefined \<and> key = JStr ''json'' \<or> type = JStr (ResponseBodyType_value t) \<and> key = type)"
  then have ok: "ok response" by (simp add: ok_def)
  from a have hooks: "(case member hooks ''afterResponse'' of
            Inl e \<Rightarrow> Some e
          | Inr hs \<Rightarrow> if truthy hs then runAfterResponseHooks h hs response else None) = None"
    by (intro afterResponseHooksReturn_None) simp
  have "truthy (JStr (ResponseBodyType_value t))" by (cases t) simp_all
  with a have key: "js_or type (JStr DEFAULT_EXPECTED_DATA_TYPE) = key"
    by (auto simp: js_or_def DEFAULT_EXPECTED_DATA_TYPE_def)
  from a have f: "fetch h req = Fulfilled response" by simp
  show "(resolveBody h key response = Fulfilled d \<longrightarrow>
      asyncBody h hooks type req c =
        Fulfilled \<lparr>cancel = c, status = response_status response,
                   statusText = response_statusText response, data = d\<rparr>)
   \<and> (resolveBody h key response = Rejected e \<longrightarrow> asyncBody h hooks type req c = Rejected e)
   \<and> (resolveBody h key response = Pending \<longrightarrow> asyncBody h hooks type req c = Pending)"
    by (simp add: asyncBody_def f hooks ok key Let_def)
qed

theorem asyncBody_success_status_witness:
  "asyncBody (example_host response_200 (Fulfilled (JObj [])) None)
      (JObj []) JUndefined example_request 5
     = Fulfilled \<lparr>cancel = 5, status = 200, statusText = ''OK'',
                  data = JObj []\<rparr>
   \<and> asyncBody (example_host response_204 (Rejected (Thrown SyntaxError)) None)
        (JObj []) (JStr ''json'') example_request 5
     = Rejected (Thrown SyntaxError)"
proof -
  let ?h = "example_host response_200 (Fulfilled (JObj [])) None"
  let ?g = "example_host response_204 (Rejected (Thrown SyntaxError)) None"
  have h: "fetch ?h example_request = Fulfilled response_200
     \<and> 200 \<le> response_status response_200 \<and> response_status response_200 \<le> 299
     \<and> afterResponseHooksReturn ?h (JObj []) response_200
     \<and> (JUndefined = JUndefined \<and> JStr ''json'' = JStr ''json''
         \<or> JUndefined = JStr (ResponseBodyType_value JSON) \<and> JStr ''json'' = JUndefined)"
    by (simp add: example_host_def response_200_def afterResponseHooksReturn_def get_prop_def)
  have g: "fetch ?g example_request = Fulfilled response_204
     \<and> 200 \<le> response_status response_204 \<and> response_status response_204 \<le> 299
     \<and> afterResponseHooksReturn ?g (JObj []) response_204
     \<and> (JStr ''json'' = JUndefined \<and> JStr ''json'' = JStr ''json''
         \<or> JStr ''json'' = JStr (ResponseBodyType_value JSON) \<and> JStr ''json'' = JStr ''json'')"
    by (simp add: example_host_def response_204_def afterResponseHooksReturn_def get_prop_def)
  have rh: "resolveBody ?h (JStr ''json'') response_200 = Fulfilled (JObj [])"
    by (simp add: example_host_def)
  have rg: "resolveBody ?g (JStr ''json'') response_204 = Rejected (Thrown SyntaxError)"
    by (simp add: example_host_def)
  have s: "response_status response_200 = 200" "response_statusText response_200 = ''OK''"
    by (simp_all add: response_200_def)
  from asyncBody_success_status [of ?h example_request response_200 "JObj []" JUndefined
      "JStr ''json''" JSON "JObj []" 5] h rh s
  have 1: "asyncBody ?h (JObj []) JUndefined example_request 5
     = Fulfilled \<lparr>cancel = 5, status = 200, statusText = ''OK'',
                  data = JObj []\<rparr>"
    by simp
  from asyncBody_success_status [of ?g example_request response_204 "JObj []" "JStr ''json''"
      "JStr ''json''" JSON _ 5 "Thrown SyntaxError"] g rg
  have 2: "asyncBody ?g (JObj []) (JStr ''json'') example_request 5 = Rejected (Thrown SyntaxError)"
    by simp
  from 1 2 show ?thesis by simp
qed

section \<open>Cancellation\<close>










section \<open>The client\<close>

lemma deepMerge_lookup:
  "distinct (map fst source) \<Longrightarrow>
   map_of (deepMerge target source) k =
     (case map_of source k of
        None \<Rightarrow> map_of target k
      | Some v \<Rightarrow> Some (case v of
            JObj sv \<Rightarrow> (case map_of target k of Some (JObj tv) \<Rightarrow> JObj (deepMerge tv sv) | _ \<Rightarrow> v)
          | _ \<Rightarrow> v))"
proof (induction source arbitrary: target)
  case Nil
  then show ?case by simp
next
  case (Cons p source)
  obtain k' v' where p: "p = (k', v')" by (cases p)
  from Cons.prems p have d: "distinct (map fst source)" and nin: "k' \<notin> fst ` set source" by auto
  from nin have none: "map_of source k' = None" by (simp add: map_of_eq_None_iff)
  show ?case
  proof (cases "k = k'")
    case True
    then have k': "k' = k" by simp
    from none show ?thesis
      unfolding p k' by (simp add: Cons.IH [OF d] map_of_assign)
  next
    case False
    then have *: "\<And>x. map_of (assign target k' x) k = map_of target k"
      by (simp add: map_of_assign)
    from False show ?thesis
      unfolding p deepMerge.simps Cons.IH [OF d] * by simp
  qed
qed

lemma newRequest_snd:
  "snd (newRequest h u p m s) =
    (case constructURL u (get_prop (s ! p) ''urlPrefix'') of
       Inl e \<Rightarrow> s @ [rest_props (s ! p) [''type'', ''urlPrefix'', ''hooks'']]
     | Inr resultURL \<Rightarrow>
         snd (optionsReducer h (Suc (Suc (length s))) m
                (s @ [rest_props (s ! p) [''type'', ''urlPrefix'', ''hooks''], [],
                      literal (literal [] (rest_props (s ! p) [''type'', ''urlPrefix'', ''hooks'']))
                        [(''signal'', JSignal (Suc (length s)))]])))"
  by (simp add: newRequest_unfold split: sum.splits prod.splits option.splits)

lemma snd_newRequest: "n \<le> length s \<Longrightarrow> take n (snd (newRequest h u p m s)) = take n s"
  by (simp add: newRequest_snd take_optionsReducer split: sum.splits)

lemma snd_internalFetch: "snd (internalFetch h u p m s) = snd (newRequest h u p m s)"
  by (simp add: internalFetch_def split: prod.splits sum.splits)

lemma shortcut_frame: "take (length s) (snd (shortcut h d m u options s)) = s"
  by (simp add: shortcut_def alloc_def Let_def snd_internalFetch snd_newRequest split: option.splits)

lemma createFetchData_shortcut:
  "createFetchData h d (HTTPMethod_value m) = Some (shortcut h d m)"
  by (cases m) (simp_all add: createFetchData_def enumKeys_def)

text \<open>
  Claim C9. For every method, the function that createFetchData stores under the
  method's name for a client with the given defaults hands internalFetch a new object:
  the bound \<^verbatim>\<open>method\<close> followed by the properties of deepMerge of the client's defaults
  and the call's options (of the defaults and the empty object when the call passes no
  options), itself a new object. In a merge (the second object having each key once, as
  an object does) a key that the second object lacks keeps the first object's value, a
  key under which both objects hold a mapping gets the merge of the two mappings, and
  any other key of the second object gets the second object's value. And after the
  call, however it ends, every object that existed before it (the client's defaults
  among them) is what it was: neither the merge nor optionsReducer assigns to it.
\<close>

theorem createFetchData_merges_defaults:
  "(\<exists>f. createFetchData h defaultOptions (HTTPMethod_value httpMethod) = Some f
      \<and> f u (Some options) s =
          internalFetch h u (Suc (length s)) httpMethod
            (s @ [deepMerge (s ! defaultOptions) (s ! options),
                  literal [(''method'', JStr (HTTPMethod_value httpMethod))]
                    (deepMerge (s ! defaultOptions) (s ! options))])
      \<and> (defaultOptions < length s \<longrightarrow>
           f u None s =
             internalFetch h u (Suc (Suc (length s))) httpMethod
               (s @ [[], deepMerge (s ! defaultOptions) [],
                     literal [(''method'', JStr (HTTPMethod_value httpMethod))]
                       (deepMerge (s ! defaultOptions) [])]))
      \<and> take (length s) (snd (f u opts s)) = s)
   \<and> (distinct (map fst source) \<longrightarrow>
        (map_of source k = None \<longrightarrow> get_prop (deepMerge target source) k = get_prop target k)
      \<and> (map_of source k = Some (JObj sv) \<and> map_of target k = Some (JObj tv) \<longrightarrow>
           get_prop (deepMerge target source) k = JObj (deepMerge tv sv))
      \<and> (map_of source k = Some v \<and> \<not> (\<exists>sv tv. v = JObj sv \<and> map_of target k = Some (JObj tv)) \<longrightarrow>
           get_prop (deepMerge target source) k = v))"
proof (intro conjI impI)
  have 1: "shortcut h defaultOptions httpMethod u (Some options) s =
          internalFetch h u (Suc (length s)) httpMethod
            (s @ [deepMerge (s ! defaultOptions) (s ! options),
                  literal [(''method'', JStr (HTTPMethod_value httpMethod))]
                    (deepMerge (s ! defaultOptions) (s ! options))])"
    by (simp add: shortcut_def alloc_def Let_def nth_append)
  have 2: "defaultOptions < length s \<longrightarrow>
           shortcut h defaultOptions httpMethod u None s =
             internalFetch h u (Suc (Suc (length s))) httpMethod
               (s @ [[], deepMerge (s ! defaultOptions) [],
                     literal [(''method'', JStr (HTTPMethod_value httpMethod))]
                       (deepMerge (s ! defaultOptions) [])])"
    by (simp add: shortcut_def alloc_def Let_def nth_append)
  have 3: "take (length s) (snd (shortcut h defaultOptions httpMethod u opts s)) = s"
    by (rule shortcut_frame)
  from createFetchData_shortcut [of h defaultOptions httpMethod] 1 2 3
  show "\<exists>f. createFetchData h defaultOptions (HTTPMethod_value httpMethod) = Some f
      \<and> f u (Some options) s =
          internalFetch h u (Suc (length s)) httpMethod
            (s @ [deepMerge (s ! defaultOptions) (s ! options),
                  literal [(''method'', JStr (HTTPMethod_value httpMethod))]
                    (deepMerge (s ! defaultOptions) (s ! options))])
      \<and> (defaultOptions < length s \<longrightarrow>
           f u None s =
             internalFetch h u (Suc (Suc (length s))) httpMethod
               (s @ [[], deepMerge (s ! defaultOptions) [],
                     literal [(''method'', JStr (HTTPMethod_value httpMethod))]
                       (deepMerge (s ! defaultOptions) [])]))
      \<and> take (length s) (snd (f u opts s)) = s"
    by blast
next
  assume d: "distinct (map fst source)" and n: "map_of source k = None"
  show "get_prop (deepMerge target source) k = get_prop target k"
    by (simp add: get_prop_def deepMerge_lookup [OF d] n)
next
  assume d: "distinct (map fst source)"
    and b: "map_of source k = Some (JObj sv) \<and> map_of target k = Some (JObj tv)"
  show "get_prop (deepMerge target source) k = JObj (deepMerge tv sv)"
    by (simp add: get_prop_def deepMerge_lookup [OF d] b)
next
  assume d: "distinct (map fst source)"
    and c: "map_of source k = Some v \<and> \<not> (\<exists>sv tv. v = JObj sv \<and> map_of target k = Some (JObj tv))"
  from c show "get_prop (deepMerge target source) k = v"
    by (auto simp: get_prop_def deepMerge_lookup [OF d] split: jsval.splits option.splits)
qed

theorem createFetchData_merges_defaults_witness:
  "(\<exists>f. createFetchData (example_host response_200 Pending None) 1 ''post'' = Some f
      \<and> f ''products'' (Some 0) [example_options, example_defaults] =
          internalFetch (example_host response_200 Pending None) ''products'' 3 POST
            [example_options, example_defaults,
             [(''urlPrefix'', JStr ''http://site.com''),
              (''headers'', JObj [(''Authentication'', JStr ''secret''),
                                 (''Accept'', JStr ''text/plain'')]),
              (''body'', JObj [(''title'', JStr ''new title'')])],
             [(''method'', JStr ''post''),
              (''urlPrefix'', JStr ''http://site.com''),
              (''headers'', JObj [(''Authentication'', JStr ''secret''),
                                 (''Accept'', JStr ''text/plain'')]),
              (''body'', JObj [(''title'', JStr ''new title'')])]])
   \<and> (\<exists>f. createFetchData (example_host response_200 Pending None) 1 ''get'' = Some f
      \<and> fst (f ''products'' None [example_options, example_defaults]) =
          Inr \<lparr>request = asyncBody (example_host response_200 Pending None) (JObj []) JUndefined
                   \<lparr>url = ''http://site.com/products'',
                    init = [(''method'', JStr ''get''),
                            (''headers'', JObj [(''Authentication'', JStr ''secret'')]),
                            (''signal'', JSignal 6)]\<rparr> 6,
                cancelRequest = 6\<rparr>
      \<and> take 2 (snd (f ''products'' None [example_options, example_defaults]))
          = [example_options, example_defaults])
   \<and> get_prop (deepMerge example_defaults example_options) ''urlPrefix'' = JStr ''http://site.com''
   \<and> get_prop (deepMerge example_defaults example_options) ''headers'' =
        JObj (deepMerge [(''Authentication'', JStr ''secret'')] [(''Accept'', JStr ''text/plain'')])
   \<and> get_prop (deepMerge example_defaults example_options) ''body'' =
        JObj [(''title'', JStr ''new title'')]"
proof -
  let ?h = "example_host response_200 Pending None"
  let ?s = "[example_options, example_defaults]"
  have d: "distinct (map fst example_options)"
    by (simp add: example_options_def)
  have m: "deepMerge example_defaults example_options =
        [(''urlPrefix'', JStr ''http://site.com''),
         (''headers'', JObj [(''Authentication'', JStr ''secret''), (''Accept'', JStr ''text/plain'')]),
         (''body'', JObj [(''title'', JStr ''new title'')])]"
    by (simp add: example_defaults_def example_options_def)
  have 1: "map_of example_options ''urlPrefix'' = None"
    by (simp add: example_options_def)
  have 2: "map_of example_options ''headers'' = Some (JObj [(''Accept'', JStr ''text/plain'')])
         \<and> map_of example_defaults ''headers'' = Some (JObj [(''Authentication'', JStr ''secret'')])"
    by (simp add: example_options_def example_defaults_def)
  have 3: "map_of example_options ''body'' = Some (JObj [(''title'', JStr ''new title'')])
         \<and> \<not> (\<exists>sv tv. JObj [(''title'', JStr ''new title'')] = JObj sv
                       \<and> map_of example_defaults ''body'' = Some (JObj tv))"
    by (simp add: example_options_def example_defaults_def)
  from createFetchData_merges_defaults
    [where source = example_options and target = example_defaults and k = "''urlPrefix''",
      THEN conjunct2, THEN mp, OF d] 1
  have a: "get_prop (deepMerge example_defaults example_options) ''urlPrefix''
      = get_prop example_defaults ''urlPrefix''"
    by blast
  from createFetchData_merges_defaults
    [where source = example_options and target = example_defaults and k = "''headers''"
       and sv = "[(''Accept'', JStr ''text/plain'')]"
       and tv = "[(''Authentication'', JStr ''secret'')]",
      THEN conjunct2, THEN mp, OF d] 2
  have b: "get_prop (deepMerge example_defaults example_options) ''headers'' =
        JObj (deepMerge [(''Authentication'', JStr ''secret'')] [(''Accept'', JStr ''text/plain'')])"
    by blast
  from createFetchData_merges_defaults
    [where source = example_options and target = example_defaults and k = "''body''"
       and v = "JObj [(''title'', JStr ''new title'')]",
      THEN conjunct2, THEN mp, OF d] 3
  have c: "get_prop (deepMerge example_defaults example_options) ''body''
      = JObj [(''title'', JStr ''new title'')]"
    by blast
  have g: "get_prop example_defaults ''urlPrefix'' = JStr ''http://site.com''"
    by (simp add: example_defaults_def get_prop_def)
  from createFetchData_merges_defaults
    [where h = ?h and defaultOptions = 1 and httpMethod = POST and u = "''products''"
       and options = 0 and s = ?s, THEN conjunct1]
  obtain f where f: "createFetchData ?h 1 (HTTPMethod_value POST) = Some f"
    and fs: "f ''products'' (Some 0) ?s =
          internalFetch ?h ''products'' (Suc (length ?s)) POST
            (?s @ [deepMerge (?s ! 1) (?s ! 0),
                  literal [(''method'', JStr (HTTPMethod_value POST))]
                    (deepMerge (?s ! 1) (?s ! 0))])"
    by blast
  from fs have fs': "f ''products'' (Some 0) ?s =
          internalFetch ?h ''products'' 3 POST
            [example_options, example_defaults,
             [(''urlPrefix'', JStr ''http://site.com''),
              (''headers'', JObj [(''Authentication'', JStr ''secret''),
                                 (''Accept'', JStr ''text/plain'')]),
              (''body'', JObj [(''title'', JStr ''new title'')])],
             [(''method'', JStr ''post''),
              (''urlPrefix'', JStr ''http://site.com''),
              (''headers'', JObj [(''Authentication'', JStr ''secret''),
                                 (''Accept'', JStr ''text/plain'')]),
              (''body'', JObj [(''title'', JStr ''new title'')])]]"
    by (simp add: m literal_def eval_nat_numeral)
  from f fs' have A: "\<exists>f. createFetchData ?h 1 ''post'' = Some f
      \<and> f ''products'' (Some 0) ?s =
          internalFetch ?h ''products'' 3 POST
            [example_options, example_defaults,
             [(''urlPrefix'', JStr ''http://site.com''),
              (''headers'', JObj [(''Authentication'', JStr ''secret''),
                                 (''Accept'', JStr ''text/plain'')]),
              (''body'', JObj [(''title'', JStr ''new title'')])],
             [(''method'', JStr ''post''),
              (''urlPrefix'', JStr ''http://site.com''),
              (''headers'', JObj [(''Authentication'', JStr ''secret''),
                                 (''Accept'', JStr ''text/plain'')]),
              (''body'', JObj [(''title'', JStr ''new title'')])]]"
    by auto
  from createFetchData_merges_defaults
    [where h = ?h and defaultOptions = 1 and httpMethod = GET and u = "''products''"
       and opts = None and s = ?s, THEN conjunct1]
  obtain g where g1: "createFetchData ?h 1 (HTTPMethod_value GET) = Some g"
    and g2: "1 < length ?s \<longrightarrow>
           g ''products'' None ?s =
             internalFetch ?h ''products'' (Suc (Suc (length ?s))) GET
               (?s @ [[], deepMerge (?s ! 1) [],
                     literal [(''method'', JStr (HTTPMethod_value GET))]
                       (deepMerge (?s ! 1) [])])"
    and g3: "take (length ?s) (snd (g ''products'' None ?s)) = ?s"
    by blast
  from g2 have g2': "g ''products'' None ?s =
             internalFetch ?h ''products'' 4 GET
               [example_options, example_defaults, [], example_defaults,
                [(''method'', JStr ''get''),
                 (''urlPrefix'', JStr ''http://site.com''),
                 (''headers'', JObj [(''Authentication'', JStr ''secret'')])]]"
    by (simp add: literal_def eval_nat_numeral example_defaults_def)
  have "fst (internalFetch ?h ''products'' 4 GET
               [example_options, example_defaults, [], example_defaults,
                [(''method'', JStr ''get''),
                 (''urlPrefix'', JStr ''http://site.com''),
                 (''headers'', JObj [(''Authentication'', JStr ''secret'')])]]) =
          Inr \<lparr>request = asyncBody ?h (JObj []) JUndefined
                   \<lparr>url = ''http://site.com/products'',
                    init = [(''method'', JStr ''get''),
                            (''headers'', JObj [(''Authentication'', JStr ''secret'')]),
                            (''signal'', JSignal 6)]\<rparr> 6,
                cancelRequest = 6\<rparr>"
    by (simp add: internalFetch_fst newRequest_fst constructURL_def get_prop_def
        optionsReducer_unchanged rest_props_def literal_def startsWith_def endsWith_def
        eval_nat_numeral)
  with g1 g2' g3 have B: "\<exists>f. createFetchData ?h 1 ''get'' = Some f
      \<and> fst (f ''products'' None ?s) =
          Inr \<lparr>request = asyncBody ?h (JObj []) JUndefined
                   \<lparr>url = ''http://site.com/products'',
                    init = [(''method'', JStr ''get''),
                            (''headers'', JObj [(''Authentication'', JStr ''secret'')]),
                            (''signal'', JSignal 6)]\<rparr> 6,
                cancelRequest = 6\<rparr>
      \<and> take 2 (snd (f ''products'' None ?s)) = ?s"
    by (auto simp: eval_nat_numeral)
  from A B a b c g show ?thesis by simp
qed

end
